theory Spec2Isabelle
  imports Complex_Main
begin

section \<open>Frontend data model (src/types/index.ts)\<close>

text \<open>
  The TypeScript interfaces \<^verbatim>\<open>User\<close>, \<^verbatim>\<open>Transaction\<close> and
  \<^verbatim>\<open>FraudAlert\<close>. Optional fields (\<^verbatim>\<open>bankId?: string\<close>) are options,
  string-literal unions are datatypes, \<^verbatim>\<open>number\<close> is \<open>real\<close>. Field names carry
  a prefix per interface, because the selectors of all records share one name space.
  The \<^verbatim>\<open>status\<close> of a \<^verbatim>\<open>FraudAlert\<close> is kept as a string: the hook
  \<^verbatim>\<open>updateAlert\<close> stores an arbitrary string there (\<^verbatim>\<open>status as any\<close>).
\<close>

datatype role = Admin | Analyst | Client

record User =
  u_id :: string
  u_email :: string
  u_name :: string
  u_role :: role
  u_bankId :: "string option"
  u_bankName :: "string option"
  u_isActive :: bool
  u_createdAt :: string

datatype tx_type = Transfer | Payment | Withdrawal | Deposit

datatype tx_status = Pending | Completed | Flagged | Blocked

record Transaction =
  tx_id :: string
  tx_amount :: real
  tx_currency :: string
  tx_timestamp :: string
  tx_fromAccount :: string
  tx_toAccount :: string
  tx_type :: tx_type
  tx_status :: tx_status
  tx_riskScore :: real
  tx_fraudProbability :: real
  tx_location :: string
  tx_deviceInfo :: string
  tx_bankId :: string
  tx_isBlocked :: bool
  tx_blockedBy :: "string option"
  tx_blockedAt :: "string option"

datatype severity = Low | Medium | High | Critical

datatype recommended_action = Monitor | Review | Block | Investigate

record FraudAlert =
  fa_id :: string
  fa_transactionId :: string
  fa_bankId :: string
  fa_severity :: severity
  fa_type :: string
  fa_description :: string
  fa_timestamp :: string
  fa_status :: string
  fa_assignedTo :: "string option"
  fa_fraudProbability :: real
  fa_aiConfidence :: real
  fa_recommendedAction :: recommended_action

section \<open>The hook useRealTimeData: pushed events\<close>

text \<open>
  \<^verbatim>\<open>setTransactions(prev => [transaction, ...prev.slice(0, 99)])\<close> and
  \<^verbatim>\<open>setAlerts(prev => [alert, ...prev])\<close>: each handler is the function from
  the previous React state to the next one. \<^verbatim>\<open>prev.slice(0, 99)\<close> keeps the
  first 99 entries (fewer when the list is shorter).
\<close>

definition handleNewTransaction :: "Transaction \<Rightarrow> Transaction list \<Rightarrow> Transaction list" where
  "handleNewTransaction transaction prev = transaction # take 99 prev"

definition handleFraudAlert :: "FraudAlert \<Rightarrow> FraudAlert list \<Rightarrow> FraudAlert list" where
  "handleFraudAlert alert prev = alert # prev"

text \<open>
  A run of pushed events, in arrival order, applied to the state one after the other.
\<close>

fun pushTransactions :: "Transaction list \<Rightarrow> Transaction list \<Rightarrow> Transaction list" where
  "pushTransactions prev [] = prev"
| "pushTransactions prev (t # ts) = pushTransactions (handleNewTransaction t prev) ts"

fun pushAlerts :: "FraudAlert list \<Rightarrow> FraudAlert list \<Rightarrow> FraudAlert list" where
  "pushAlerts prev [] = prev"
| "pushAlerts prev (a # as) = pushAlerts (handleFraudAlert a prev) as"

section \<open>Mock data and the login fallback (services/mockData.ts, contexts/AuthContext.tsx)\<close>

definition mockUsers :: "User list" where
  "mockUsers =
    [\<lparr>u_id = ''1'', u_email = ''admin@bigdefend.ai'', u_name = ''Admin BigDefend'',
       u_role = Admin, u_bankId = None, u_bankName = None, u_isActive = True,
       u_createdAt = ''2024-01-01T00:00:00Z''\<rparr>,
     \<lparr>u_id = ''2'', u_email = ''analyst@bnp.fr'', u_name = ''Jean Dupont'',
       u_role = Analyst, u_bankId = Some ''bnp'', u_bankName = Some ''BNP Paribas'',
       u_isActive = True, u_createdAt = ''2024-01-02T00:00:00Z''\<rparr>,
     \<lparr>u_id = ''3'', u_email = ''client@bnp.fr'', u_name = ''Marie Martin'',
       u_role = Client, u_bankId = Some ''bnp'', u_bankName = Some ''BNP Paribas'',
       u_isActive = True, u_createdAt = ''2024-01-03T00:00:00Z''\<rparr>]"

text \<open>
  A rejected axios call carries \<^verbatim>\<open>error.response?.status\<close>: the HTTP status, or
  nothing when no response arrived. The response interceptor of services/api.ts removes
  \<^verbatim>\<open>auth_token\<close> from localStorage on a 401 before the rejection reaches the
  caller (it also sets \<^verbatim>\<open>window.location.href\<close>, which is not part of this state).
\<close>

datatype api_error = ApiError "nat option"

record auth_state =
  as_user :: "User option"
  ls_auth_token :: "string option"
  ls_mock_user_email :: "string option"

fun response_interceptor :: "api_error \<Rightarrow> auth_state \<Rightarrow> auth_state" where
  "response_interceptor (ApiError status) st =
     (if status = Some 401 then st\<lparr>ls_auth_token := None\<rparr> else st)"

datatype login_error = InvalidCredentials

text \<open>
  The \<^verbatim>\<open>catch\<close> block of \<^verbatim>\<open>login\<close>:
  \<^verbatim>\<open>mockUsers.find(u => u.email === email)\<close>, then
  \<^verbatim>\<open>if (mockUser && password === 'demo123')\<close>; the \<^verbatim>\<open>else\<close> branch throws
  \<^verbatim>\<open>Error('Invalid credentials')\<close>.
\<close>

definition mock_login :: "string \<Rightarrow> string \<Rightarrow> auth_state \<Rightarrow> (login_error + unit) \<times> auth_state" where
  "mock_login email password st =
     (case find (\<lambda>u. u_email u = email) mockUsers of
        Some mockUser \<Rightarrow>
          if password = ''demo123''
          then (Inr (),
                st\<lparr>ls_auth_token := Some (''mock_token_'' @ u_id mockUser),
                   ls_mock_user_email := Some email,
                   as_user := Some mockUser\<rparr>)
          else (Inl InvalidCredentials, st)
      | None \<Rightarrow> (Inl InvalidCredentials, st))"

text \<open>
  \<^verbatim>\<open>login\<close>. The two awaited calls are parameters: the outcome of
  \<^verbatim>\<open>authAPI.login\<close> (the access token, or a rejection) and of
  \<^verbatim>\<open>authAPI.getCurrentUser\<close>. The second call is made only when the first one
  succeeded, after the token was stored. The result is the promise's outcome (rejected
  with an error, or fulfilled) and the state left behind.
\<close>

definition login ::
  "(api_error + string) \<Rightarrow> (api_error + User) \<Rightarrow> string \<Rightarrow> string \<Rightarrow> auth_state
    \<Rightarrow> (login_error + unit) \<times> auth_state" where
  "login login_response me_response email password st =
     (case login_response of
        Inl error \<Rightarrow> mock_login email password (response_interceptor error st)
      | Inr access_token \<Rightarrow>
          (let st1 = st\<lparr>ls_auth_token := Some access_token\<rparr> in
           case me_response of
             Inl error \<Rightarrow> mock_login email password (response_interceptor error st1)
           | Inr currentUser \<Rightarrow> (Inr (), st1\<lparr>as_user := Some currentUser\<rparr>)))"

section \<open>The hook useRealTimeData: initial load and status updates\<close>

text \<open>
  JavaScript's truthiness of a \<^verbatim>\<open>string | undefined\<close> (and Python's of a
  \<^verbatim>\<open>str | None\<close>): absent and the empty string are falsy.
\<close>

fun truthy :: "string option \<Rightarrow> bool" where
  "truthy None = False"
| "truthy (Some s) = (s \<noteq> [])"

text \<open>\<^verbatim>\<open>const bankId = user.role === 'admin' ? undefined : user.bankId\<close>\<close>

definition viewerBankId :: "User \<Rightarrow> string option" where
  "viewerBankId user = (if u_role user = Admin then None else u_bankId user)"

record hook_state =
  hs_transactions :: "Transaction list"
  hs_alerts :: "FraudAlert list"
  hs_loading :: bool
  hs_error :: "string option"

text \<open>
  \<^verbatim>\<open>loadInitialData\<close>. The outcome of the three API calls awaited together is a
  parameter (they are fulfilled together, or one rejection sends the hook to the mock
  data), and so are the module's \<^verbatim>\<open>mockTransactions\<close> and \<^verbatim>\<open>mockAlerts\<close>,
  which are drawn at random when the module loads. The risk metrics, which no alert
  depends on, are left out of the state.
\<close>

definition loadInitialData ::
  "User option \<Rightarrow> (api_error + Transaction list \<times> FraudAlert list)
    \<Rightarrow> Transaction list \<Rightarrow> FraudAlert list \<Rightarrow> hook_state \<Rightarrow> hook_state" where
  "loadInitialData user api mockTransactions mockAlerts st =
     (case user of
        None \<Rightarrow> st
      | Some u \<Rightarrow>
          (let bankId = viewerBankId u in
           case api of
             Inr (txns, alts) \<Rightarrow>
               st\<lparr>hs_error := None, hs_transactions := txns, hs_alerts := alts,
                  hs_loading := False\<rparr>
           | Inl apiError \<Rightarrow>
               (let filteredTransactions =
                      (if truthy bankId
                       then filter (\<lambda>tx. Some (tx_bankId tx) = bankId) mockTransactions
                       else mockTransactions);
                    filteredAlerts =
                      (if truthy bankId
                       then filter (\<lambda>alert. Some (fa_bankId alert) = bankId) mockAlerts
                       else mockAlerts)
                in st\<lparr>hs_error := None, hs_transactions := filteredTransactions,
                      hs_alerts := filteredAlerts, hs_loading := False\<rparr>)))"

text \<open>
  The visibility test that \<^verbatim>\<open>loadInitialData\<close> applies to one alert (the
  specification's \<open>CanSee\<close>): the filter's predicate when the viewer's bank id is
  truthy, and no test at all otherwise.
\<close>

definition CanSee :: "FraudAlert \<Rightarrow> User \<Rightarrow> bool" where
  "CanSee alert viewer =
     (let bankId = viewerBankId viewer
      in if truthy bankId then Some (fa_bankId alert) = bankId else True)"

text \<open>
  \<^verbatim>\<open>updateAlert\<close>. The outcome of \<^verbatim>\<open>alertsAPI.updateAlertStatus\<close> is a
  parameter. Both branches end in \<^verbatim>\<open>setAlerts\<close>; the \<^verbatim>\<open>catch\<close> block logs
  the error and rethrows nothing, so the promise is always fulfilled and the function
  is the new alert list.
\<close>

definition updateAlert ::
  "(api_error + FraudAlert) \<Rightarrow> string \<Rightarrow> string \<Rightarrow> string option \<Rightarrow> FraudAlert list
    \<Rightarrow> FraudAlert list" where
  "updateAlert api alertId status assignedTo prev =
     (case api of
        Inr updatedAlert \<Rightarrow>
          map (\<lambda>alert. if fa_id alert = alertId then updatedAlert else alert) prev
      | Inl error \<Rightarrow>
          map (\<lambda>alert. if fa_id alert = alertId
                        then alert\<lparr>fa_status := status, fa_assignedTo := assignedTo\<rparr>
                        else alert) prev)"

section \<open>Mock alerts (services/mockData.ts)\<close>

text \<open>Decimal digits of a number, for the template string \<^verbatim>\<open>alert_${index + 1}\<close>.\<close>

function string_of_nat :: "nat \<Rightarrow> string" where
  "string_of_nat n =
     (if n < 10 then [''0123456789'' ! n]
      else string_of_nat (n div 10) @ [''0123456789'' ! (n mod 10)])"
  by pat_completeness auto
termination
  by (relation "measure id") auto

text \<open>
  \<^verbatim>\<open>generateMockAlerts\<close>: a filter on \<^verbatim>\<open>fraudProbability > 0.7\<close>, then a map
  with the index. Two things come from outside and are parameters: the rendering
  \<^verbatim>\<open>tx.amount.toFixed(2)\<close> of the amount, and the value \<^verbatim>\<open>Math.random()\<close>
  returns when the alert of a given index is built. Probabilities are compared as real
  numbers.
\<close>

definition generateMockAlerts ::
  "(real \<Rightarrow> string) \<Rightarrow> (nat \<Rightarrow> real) \<Rightarrow> Transaction list \<Rightarrow> FraudAlert list" where
  "generateMockAlerts toFixed2 random transactions =
     map (\<lambda>(index, tx).
            \<lparr>fa_id = ''alert_'' @ string_of_nat (index + 1),
             fa_transactionId = tx_id tx,
             fa_bankId = tx_bankId tx,
             fa_severity =
               (if tx_fraudProbability tx > 0.9 then Critical
                else if tx_fraudProbability tx > 0.8 then High else Medium),
             fa_type = ''Suspicious Transaction'',
             fa_description =
               ''Transaction of '' @ toFixed2 (tx_amount tx) @ '' '' @ tx_currency tx
                 @ '' flagged by AI model'',
             fa_timestamp = tx_timestamp tx,
             fa_status = (if tx_fraudProbability tx > 0.95 then ''investigating'' else ''open''),
             fa_assignedTo = None,
             fa_fraudProbability = tx_fraudProbability tx,
             fa_aiConfidence = random index * 0.3 + 0.7,
             fa_recommendedAction =
               (if tx_fraudProbability tx > 0.9 then Block
                else if tx_fraudProbability tx > 0.8 then Investigate else Review)\<rparr>)
         (enumerate 0 (filter (\<lambda>tx. tx_fraudProbability tx > 0.7) transactions))"

section \<open>Backend: models, ingestion and status update\<close>

text \<open>
  The SQLAlchemy models \<^verbatim>\<open>Transaction\<close> and \<^verbatim>\<open>Alert\<close> (app/models), the
  payload \<^verbatim>\<open>TransactionCreate\<close> with the columns the model shows, and the
  \<^verbatim>\<open>role\<close> column of \<^verbatim>\<open>User\<close>, a string. Timestamps are integers.
  The class \<^verbatim>\<open>Alert\<close> maps seven columns and no \<^verbatim>\<open>assigned_to\<close> among
  them. The database is the two tables with the counters their integer primary keys
  are drawn from; a write the database refuses is outside this model.
\<close>

record TransactionCreate =
  tc_banque_id :: int
  tc_transaction_amount :: real
  tc_timestamp :: int

record Transaction_db =
  tr_id :: int
  tr_banque_id :: int
  tr_transaction_amount :: real
  tr_timestamp :: int
  tr_is_fraud :: bool
  tr_fraud_probability :: real

record Alert =
  al_id :: int
  al_transaction_id :: int
  al_banque_id :: int
  al_fraud_probability :: real
  al_message :: string
  al_status :: string
  al_date :: int

record database =
  db_transactions :: "Transaction_db list"
  db_alerts :: "Alert list"
  db_transactions_id_seq :: int
  db_alerts_id_seq :: int

text \<open>\<^verbatim>\<open>db.add(row); db.commit(); db.refresh(row)\<close>: the row comes back with its new id.\<close>

definition add_commit_transaction ::
  "TransactionCreate \<Rightarrow> bool \<Rightarrow> real \<Rightarrow> database \<Rightarrow> Transaction_db \<times> database" where
  "add_commit_transaction transaction is_fraud fraud_score db =
     (let new_id = db_transactions_id_seq db + 1;
          new_transaction =
            \<lparr>tr_id = new_id, tr_banque_id = tc_banque_id transaction,
             tr_transaction_amount = tc_transaction_amount transaction,
             tr_timestamp = tc_timestamp transaction,
             tr_is_fraud = is_fraud, tr_fraud_probability = fraud_score\<rparr>
      in (new_transaction,
          db\<lparr>db_transactions := db_transactions db @ [new_transaction],
             db_transactions_id_seq := new_id\<rparr>))"

definition add_commit_alert ::
  "int \<Rightarrow> int \<Rightarrow> real \<Rightarrow> string \<Rightarrow> int \<Rightarrow> database \<Rightarrow> Alert \<times> database" where
  "add_commit_alert transaction_id banque_id fraud_probability message utcnow db =
     (let new_id = db_alerts_id_seq db + 1;
          alert =
            \<lparr>al_id = new_id, al_transaction_id = transaction_id, al_banque_id = banque_id,
             al_fraud_probability = fraud_probability, al_message = message,
             al_status = ''open'', al_date = utcnow\<rparr>
      in (alert, db\<lparr>db_alerts := db_alerts db @ [alert], db_alerts_id_seq := new_id\<rparr>))"

text \<open>
  \<^verbatim>\<open>add_transaction\<close> (app/routers/transaction.py). \<^verbatim>\<open>predict_fraud\<close> is the
  scoring service, a function of the payload; \<^verbatim>\<open>message_of\<close> is the f-string that
  renders the score into the message; \<^verbatim>\<open>utcnow\<close> is the clock.
\<close>

definition add_transaction ::
  "(TransactionCreate \<Rightarrow> real) \<Rightarrow> (real \<Rightarrow> string) \<Rightarrow> int \<Rightarrow> TransactionCreate \<Rightarrow> database
    \<Rightarrow> Transaction_db \<times> database" where
  "add_transaction predict_fraud message_of utcnow transaction db =
     (let fraud_score = predict_fraud transaction;
          fraud_threshold = 0.8;
          is_fraud = (fraud_score > fraud_threshold);
          (new_transaction, db1) = add_commit_transaction transaction is_fraud fraud_score db
      in if is_fraud
         then (let (alert, db2) =
                     add_commit_alert (tr_id new_transaction) (tr_banque_id new_transaction)
                       fraud_score (message_of fraud_score) utcnow db1
               in (new_transaction, db2))
         else (new_transaction, db1))"

text \<open>
  \<^verbatim>\<open>update_alert_status\<close> (app/routers/alerts.py) with its dependency
  \<^verbatim>\<open>get_analyst_or_admin_user\<close> and the request body \<^verbatim>\<open>AlertUpdate\<close>.
  An \<^verbatim>\<open>HTTPException\<close> is its status code.
\<close>

datatype http_error = HTTPException nat

record User_db =
  ud_id :: int
  ud_name :: string
  ud_role :: string

record AlertUpdate =
  au_status :: "string option"
  au_assigned_to :: "string option"

definition get_analyst_or_admin_user :: "User_db \<Rightarrow> http_error + User_db" where
  "get_analyst_or_admin_user current_user =
     (if ud_role current_user \<notin> set [''analyst'', ''admin'']
      then Inl (HTTPException 403) else Inr current_user)"

text \<open>
  \<^verbatim>\<open>db.commit()\<close> of a changed row: the row with that primary key is replaced.
  Only mapped columns are written.
\<close>

fun commit_alert :: "Alert \<Rightarrow> Alert list \<Rightarrow> Alert list" where
  "commit_alert alert [] = []"
| "commit_alert alert (row # rows) =
     (if al_id row = al_id alert then alert # rows else row # commit_alert alert rows)"

text \<open>
  The handler. \<^verbatim>\<open>alert.status = ...\<close> changes a mapped column.
  \<^verbatim>\<open>alert.assigned_to = ...\<close> sets an attribute of the Python object that the
  class maps to no column: \<^verbatim>\<open>db.commit()\<close> does not write it and
  \<^verbatim>\<open>db.refresh(alert)\<close> does not touch it, so it is on the returned object and
  nowhere in the database. The result is the refreshed row, the attribute the handler
  set on the object (\<open>None\<close> when it set none), and the database.
\<close>

definition update_alert_status ::
  "int \<Rightarrow> AlertUpdate \<Rightarrow> database \<Rightarrow> User_db
    \<Rightarrow> http_error + Alert \<times> string option \<times> database" where
  "update_alert_status alert_id alert_update db current_user =
     (case get_analyst_or_admin_user current_user of
        Inl e \<Rightarrow> Inl e
      | Inr authorized \<Rightarrow>
          (case find (\<lambda>a. al_id a = alert_id) (db_alerts db) of
             None \<Rightarrow> Inl (HTTPException 404)
           | Some alert \<Rightarrow>
               (let alert1 = (if truthy (au_status alert_update)
                              then alert\<lparr>al_status := the (au_status alert_update)\<rparr>
                              else alert);
                    assigned_to = (if truthy (au_assigned_to alert_update)
                                   then au_assigned_to alert_update
                                   else None)
                in Inr (alert1, assigned_to,
                        db\<lparr>db_alerts := commit_alert alert1 (db_alerts db)\<rparr>))))"

text \<open>
  The row \<^verbatim>\<open>update_alert_status\<close> leaves behind and the attribute it returns,
  written once for the statements below.
\<close>

abbreviation updated :: "Alert \<Rightarrow> AlertUpdate \<Rightarrow> Alert" where
  "updated alert alert_update \<equiv>
     alert\<lparr>al_status := (if truthy (au_status alert_update)
                           then the (au_status alert_update) else al_status alert)\<rparr>"

abbreviation requested_assignee :: "AlertUpdate \<Rightarrow> string option" where
  "requested_assignee alert_update \<equiv>
     (if truthy (au_assigned_to alert_update) then au_assigned_to alert_update else None)"

text \<open>
  What the two primary keys and the foreign key of \<^verbatim>\<open>alerts\<close> give: no stored
  transaction id is beyond the counter, transaction ids are distinct, and so are the
  transaction ids the alerts refer to.
\<close>

definition db_consistent :: "database \<Rightarrow> bool" where
  "db_consistent db =
     ((\<forall>t \<in> set (db_transactions db). tr_id t \<le> db_transactions_id_seq db)
      \<and> (\<forall>a \<in> set (db_alerts db). al_transaction_id a \<le> db_transactions_id_seq db)
      \<and> distinct (map tr_id (db_transactions db))
      \<and> distinct (map al_transaction_id (db_alerts db)))"

section \<open>Example data\<close>

text \<open>
  Inputs for the concrete checks below. The viewers are the mock users of the source.
  \<open>bnp_alert\<close> is an alert as \<^verbatim>\<open>generateMockAlerts\<close> builds one, for a transfer
  of 950 EUR at BNP scored 0.85. On the backend side: an empty database, a payload, an
  analyst, and a database that holds one open alert.
\<close>

definition bnp_analyst :: User where
  "bnp_analyst = mockUsers ! 1"

definition bnp_client :: User where
  "bnp_client = mockUsers ! 2"

definition bnp_alert :: FraudAlert where
  "bnp_alert =
     \<lparr>fa_id = ''alert_1'', fa_transactionId = ''tx_1'', fa_bankId = ''bnp'',
      fa_severity = High, fa_type = ''Suspicious Transaction'',
      fa_description = ''Transaction of 950.00 EUR flagged by AI model'',
      fa_timestamp = ''2024-01-05T10:00:00Z'', fa_status = ''open'',
      fa_assignedTo = None, fa_fraudProbability = 0.85, fa_aiConfidence = 0.9,
      fa_recommendedAction = Investigate\<rparr>"

definition bnp_transaction :: Transaction where
  "bnp_transaction =
     \<lparr>tx_id = ''tx_1'', tx_amount = 950, tx_currency = ''EUR'',
      tx_timestamp = ''2024-01-05T10:00:00Z'', tx_fromAccount = ''ACC001'',
      tx_toAccount = ''ACC002'', tx_type = Transfer, tx_status = Flagged,
      tx_riskScore = 0.5, tx_fraudProbability = 0.85, tx_location = ''Paris, France'',
      tx_deviceInfo = ''ATM'', tx_bankId = ''bnp'', tx_isBlocked = False,
      tx_blockedBy = None, tx_blockedAt = None\<rparr>"

definition logged_out :: auth_state where
  "logged_out = \<lparr>as_user = None, ls_auth_token = None, ls_mock_user_email = None\<rparr>"

definition empty_db :: database where
  "empty_db =
     \<lparr>db_transactions = [], db_alerts = [], db_transactions_id_seq = 0, db_alerts_id_seq = 0\<rparr>"

definition payload :: TransactionCreate where
  "payload = \<lparr>tc_banque_id = 2, tc_transaction_amount = 950, tc_timestamp = 1704448800\<rparr>"

definition open_alert :: Alert where
  "open_alert =
     \<lparr>al_id = 1, al_transaction_id = 1, al_banque_id = 2, al_fraud_probability = 0.9,
      al_message = ''suspect'', al_status = ''open'', al_date = 1704448800\<rparr>"

definition alert_db :: "Alert \<Rightarrow> database" where
  "alert_db alert =
     \<lparr>db_transactions =
        [\<lparr>tr_id = 1, tr_banque_id = 2, tr_transaction_amount = 950,
          tr_timestamp = 1704448800, tr_is_fraud = True, tr_fraud_probability = 0.9\<rparr>],
      db_alerts = [alert], db_transactions_id_seq = 1, db_alerts_id_seq = 1\<rparr>"

definition jean :: User_db where
  "jean = \<lparr>ud_id = 5, ud_name = ''Jean Dupont'', ud_role = ''analyst''\<rparr>"

definition anne :: User_db where
  "anne = \<lparr>ud_id = 6, ud_name = ''Anne Morel'', ud_role = ''analyst''\<rparr>"

section \<open>Shared lemmas\<close>

lemma find_SomeD: "find P xs = Some x \<Longrightarrow> x \<in> set xs \<and> P x"
  by (induction xs) (auto split: if_splits)

lemma find_commit_alert:
  "find (\<lambda>a. al_id a = i) rows = Some old \<Longrightarrow> al_id new = i
    \<Longrightarrow> find (\<lambda>a. al_id a = i) (commit_alert new rows) = Some new"
  by (induction rows) (auto split: if_splits)

lemma get_analyst_or_admin_user_ok:
  "ud_role current_user = ''analyst'' \<or> ud_role current_user = ''admin''
    \<Longrightarrow> get_analyst_or_admin_user current_user = Inr current_user"
  by (auto simp add: get_analyst_or_admin_user_def)

lemma update_alert_status_found:
  assumes "ud_role current_user = ''analyst'' \<or> ud_role current_user = ''admin''"
    and "find (\<lambda>a. al_id a = alert_id) (db_alerts db) = Some alert"
  shows "update_alert_status alert_id alert_update db current_user
     = Inr (updated alert alert_update, requested_assignee alert_update,
            db\<lparr>db_alerts := commit_alert (updated alert alert_update) (db_alerts db)\<rparr>)"
  using assms
  by (simp add: update_alert_status_def get_analyst_or_admin_user_ok Let_def)

lemma add_transaction_flagged:
  "0.8 < predict_fraud transaction \<Longrightarrow>
   add_transaction predict_fraud message_of utcnow transaction db =
     (let new_transaction =
            \<lparr>tr_id = db_transactions_id_seq db + 1, tr_banque_id = tc_banque_id transaction,
             tr_transaction_amount = tc_transaction_amount transaction,
             tr_timestamp = tc_timestamp transaction,
             tr_is_fraud = True, tr_fraud_probability = predict_fraud transaction\<rparr>;
          alert =
            \<lparr>al_id = db_alerts_id_seq db + 1, al_transaction_id = db_transactions_id_seq db + 1,
             al_banque_id = tc_banque_id transaction,
             al_fraud_probability = predict_fraud transaction,
             al_message = message_of (predict_fraud transaction),
             al_status = ''open'', al_date = utcnow\<rparr>
      in (new_transaction,
          db\<lparr>db_transactions := db_transactions db @ [new_transaction],
             db_transactions_id_seq := db_transactions_id_seq db + 1,
             db_alerts := db_alerts db @ [alert],
             db_alerts_id_seq := db_alerts_id_seq db + 1\<rparr>))"
  by (simp add: add_transaction_def add_commit_transaction_def add_commit_alert_def Let_def)

lemma add_transaction_unflagged:
  "\<not> 0.8 < predict_fraud transaction \<Longrightarrow>
   add_transaction predict_fraud message_of utcnow transaction db =
     (let new_transaction =
            \<lparr>tr_id = db_transactions_id_seq db + 1, tr_banque_id = tc_banque_id transaction,
             tr_transaction_amount = tc_transaction_amount transaction,
             tr_timestamp = tc_timestamp transaction,
             tr_is_fraud = False, tr_fraud_probability = predict_fraud transaction\<rparr>
      in (new_transaction,
          db\<lparr>db_transactions := db_transactions db @ [new_transaction],
             db_transactions_id_seq := db_transactions_id_seq db + 1\<rparr>))"
  by (simp add: add_transaction_def add_commit_transaction_def add_commit_alert_def Let_def)

lemma fresh_id_notin:
  "\<forall>x \<in> set xs. f x \<le> (n::int) \<Longrightarrow> n + 1 \<notin> f ` set xs"
  by force

lemma bound_step:
  "\<forall>x \<in> set xs. f x \<le> (n::int) \<Longrightarrow> \<forall>x \<in> set xs. f x \<le> n + 1"
  by force

lemma add_transaction_consistent:
  assumes "db_consistent db"
  shows "db_consistent (snd (add_transaction predict_fraud message_of utcnow transaction db))"
proof -
  have t: "\<forall>t \<in> set (db_transactions db). tr_id t \<le> db_transactions_id_seq db"
    and a: "\<forall>a \<in> set (db_alerts db). al_transaction_id a \<le> db_transactions_id_seq db"
    and dt: "distinct (map tr_id (db_transactions db))"
    and da: "distinct (map al_transaction_id (db_alerts db))"
    using assms by (simp_all add: db_consistent_def)
  note fresh = fresh_id_notin [OF t] fresh_id_notin [OF a] bound_step [OF t] bound_step [OF a]
  show ?thesis
  proof (cases "0.8 < predict_fraud transaction")
    case True
    show ?thesis
      using True t a dt da fresh
      by (simp add: add_transaction_flagged db_consistent_def Let_def ball_Un)
  next
    case False
    show ?thesis
      using False t a dt da fresh
      by (simp add: add_transaction_unflagged db_consistent_def Let_def ball_Un)
  qed
qed

lemma add_transaction_id:
  "tr_id (fst (add_transaction predict_fraud message_of utcnow transaction db))
     = db_transactions_id_seq db + 1
   \<and> db_transactions_id_seq (snd (add_transaction predict_fraud message_of utcnow transaction db))
     = db_transactions_id_seq db + 1"
  by (cases "0.8 < predict_fraud transaction")
     (simp_all add: add_transaction_flagged add_transaction_unflagged Let_def)

lemma add_transaction_lengths:
  "length (db_alerts (snd (add_transaction predict_fraud message_of utcnow transaction db)))
     = length (db_alerts db) + (if 0.8 < predict_fraud transaction then 1 else 0)
   \<and> length (db_transactions (snd (add_transaction predict_fraud message_of utcnow transaction db)))
     = length (db_transactions db) + 1"
  by (cases "0.8 < predict_fraud transaction")
     (simp_all add: add_transaction_flagged add_transaction_unflagged Let_def)

lemma generateMockAlerts_probabilities:
  "map fa_fraudProbability (generateMockAlerts toFixed2 random transactions)
     = filter (\<lambda>p. 0.7 < p) (map tx_fraudProbability transactions)"
proof -
  have "map fa_fraudProbability (generateMockAlerts toFixed2 random transactions)
      = map (tx_fraudProbability \<circ> snd)
          (enumerate 0 (filter (\<lambda>tx. 0.7 < tx_fraudProbability tx) transactions))"
    unfolding generateMockAlerts_def map_map
    by (rule map_cong [OF refl]) (simp add: split_def)
  also have "\<dots> = map tx_fraudProbability
                     (filter (\<lambda>tx. 0.7 < tx_fraudProbability tx) transactions)"
    by (simp only: map_map [symmetric] map_snd_enumerate)
  also have "\<dots> = filter (\<lambda>p. 0.7 < p) (map tx_fraudProbability transactions)"
    by (simp only: filter_map comp_def)
  finally show ?thesis .
qed

lemma generateMockAlerts_severities:
  "map fa_severity (generateMockAlerts toFixed2 random transactions)
     = map (\<lambda>p. if 0.9 < p then Critical else if 0.8 < p then High else Medium)
         (map fa_fraudProbability (generateMockAlerts toFixed2 random transactions))"
  unfolding generateMockAlerts_def map_map
  by (rule map_cong [OF refl]) (simp add: split_def)

lemma generateMockAlerts_severity:
  assumes "alert \<in> set (generateMockAlerts toFixed2 random transactions)"
  shows "0.7 < fa_fraudProbability alert
     \<and> fa_severity alert =
         (if 0.9 < fa_fraudProbability alert then Critical
          else if 0.8 < fa_fraudProbability alert then High else Medium)"
proof -
  let ?sev = "\<lambda>p::real. if 0.9 < p then Critical else if 0.8 < p then High else Medium"
  let ?alerts = "generateMockAlerts toFixed2 random transactions"
  from assms obtain i where i: "i < length ?alerts" and alert: "alert = ?alerts ! i"
    by (auto simp only: in_set_conv_nth)
  have "fa_fraudProbability alert \<in> set (map fa_fraudProbability ?alerts)"
    using assms by (simp only: set_map) (rule imageI)
  then have "0.7 < fa_fraudProbability alert"
    by (simp only: generateMockAlerts_probabilities set_filter) simp
  moreover have "fa_severity alert = map fa_severity ?alerts ! i"
    using i alert by (simp only: nth_map)
  then have "fa_severity alert = ?sev (fa_fraudProbability alert)"
    using i alert by (simp only: generateMockAlerts_severities nth_map length_map)
  ultimately show ?thesis
    by (simp only:)
qed

lemma loadInitialData_fallback_alerts:
  "hs_alerts (loadInitialData (Some viewer) (Inl e) mts mas st)
     = filter (\<lambda>alert. CanSee alert viewer) mas"
  by (simp add: loadInitialData_def CanSee_def Let_def)

lemma mock_login_result:
  "(case mock_login email password st of (r, st') \<Rightarrow>
     if (\<exists>u \<in> set mockUsers. u_email u = email) \<and> password = ''demo123''
     then r = Inr () \<and> ls_mock_user_email st' = Some email
          \<and> (\<exists>u \<in> set mockUsers. u_email u = email \<and> as_user st' = Some u
                \<and> ls_auth_token st' = Some (''mock_token_'' @ u_id u))
     else r = Inl InvalidCredentials \<and> st' = st)"
proof (cases "find (\<lambda>u. u_email u = email) mockUsers")
  case None
  then have "\<not> (\<exists>u \<in> set mockUsers. u_email u = email)"
    by (simp add: find_None_iff)
  with None show ?thesis
    by (simp add: mock_login_def)
next
  case (Some mockUser)
  then have "mockUser \<in> set mockUsers \<and> u_email mockUser = email"
    by (rule find_SomeD)
  with Some show ?thesis
    by (auto simp add: mock_login_def)
qed

lemma as_user_response_interceptor:
  "as_user (response_interceptor error st) = as_user st"
  by (cases error) simp

lemma pushAlerts_rev: "pushAlerts prev alerts = rev alerts @ prev"
  by (induction alerts arbitrary: prev) (simp_all add: handleFraudAlert_def)

lemma pushTransactions_append:
  "pushTransactions prev (ts @ us) = pushTransactions (pushTransactions prev ts) us"
  by (induction ts arbitrary: prev) simp_all

lemma pushTransactions_snoc:
  "pushTransactions prev (ts @ [t]) = t # take 99 (pushTransactions prev ts)"
  by (simp add: pushTransactions_append handleNewTransaction_def)

section \<open>Visibility of alerts (C1)\<close>

text \<open>
  C1, as the code has it. When the hook loads a viewer's alerts from the mock data, the
  alerts it keeps are exactly those that pass \<open>CanSee\<close>. An admin passes for every
  alert. A viewer of any other role whose bank id is a non-empty string passes exactly
  for the alerts of that bank: a client and an analyst of one bank see the same alerts,
  and nothing narrows a client's view to the client's own account (an alert carries no
  owner).
\<close>

theorem visibility_by_bank:
  "hs_alerts (loadInitialData (Some viewer) (Inl e) mockTransactions mockAlerts st)
     = filter (\<lambda>alert. CanSee alert viewer) mockAlerts
   \<and> (u_role viewer = Admin \<longrightarrow> CanSee alert viewer)
   \<and> (u_role viewer \<noteq> Admin \<and> u_bankId viewer = Some b \<and> b \<noteq> []
        \<longrightarrow> CanSee alert viewer = (fa_bankId alert = b))"
  by (auto simp add: loadInitialData_fallback_alerts CanSee_def viewerBankId_def)

text \<open>The analyst of BNP, an alert of BNP and an alert of another bank.\<close>

theorem visibility_by_bank_witness:
  "u_role bnp_analyst \<noteq> Admin
   \<and> u_bankId bnp_analyst = Some ''bnp''
   \<and> ''bnp'' \<noteq> []
   \<and> CanSee bnp_alert bnp_analyst
   \<and> \<not> CanSee (bnp_alert\<lparr>fa_bankId := ''sg''\<rparr>) bnp_analyst"
  using visibility_by_bank [of bnp_analyst _ "[]" "[]" _ bnp_alert "''bnp''"]
    visibility_by_bank [of bnp_analyst _ "[]" "[]" _ "bnp_alert\<lparr>fa_bankId := ''sg''\<rparr>" "''bnp''"]
  by (simp add: bnp_analyst_def bnp_alert_def mockUsers_def)

text \<open>
  The specification's statement fails here: the mock client of BNP sees an alert of BNP raised on a
  transaction of the bank, although nothing attributes the alert to this client; the
  client's view is the analyst's.
\<close>

theorem client_sees_every_alert_of_bank:
  "u_role bnp_client = Client
   \<and> u_bankId bnp_client = Some (fa_bankId bnp_alert)
   \<and> CanSee bnp_alert bnp_client
   \<and> CanSee bnp_alert bnp_analyst
   \<and> hs_alerts (loadInitialData (Some bnp_client) (Inl (ApiError None)) [] [bnp_alert]
        \<lparr>hs_transactions = [], hs_alerts = [], hs_loading = True, hs_error = None\<rparr>)
      = [bnp_alert]"
  by (simp add: CanSee_def viewerBankId_def loadInitialData_def bnp_client_def
      bnp_analyst_def bnp_alert_def mockUsers_def)

section \<open>Status transitions (C2)\<close>

text \<open>
  C2, as the code has it. \<^verbatim>\<open>update_alert_status\<close> validates no transition. For a
  caller whose role is analyst or admin and an alert that is stored, every non-empty
  target status is applied and stored, whatever the alert's current status is, the
  statuses resolved and false_positive included; the call returns the changed alert,
  and the database then holds it. There is no \<open>InvalidTransition\<close> and no version.
  (The second component of the result is the assignee attribute of the returned object.)
\<close>

theorem status_update_unvalidated:
  assumes "ud_role current_user = ''analyst'' \<or> ud_role current_user = ''admin''"
    and "find (\<lambda>a. al_id a = alert_id) (db_alerts db) = Some alert"
    and "au_status alert_update = Some target" and "target \<noteq> []"
  shows "\<exists>alert' assigned db'.
       update_alert_status alert_id alert_update db current_user = Inr (alert', assigned, db')
     \<and> al_status alert' = target
     \<and> find (\<lambda>a. al_id a = alert_id) (db_alerts db') = Some alert'"
proof -
  let ?new = "updated alert alert_update"
  have id: "al_id ?new = alert_id"
    using find_SomeD [OF assms(2)] by simp
  have "al_status ?new = target"
    using assms(3,4) by simp
  moreover have "find (\<lambda>a. al_id a = alert_id) (commit_alert ?new (db_alerts db)) = Some ?new"
    using assms(2) id by (rule find_commit_alert)
  ultimately show ?thesis
    using update_alert_status_found [OF assms(1,2)] by simp
qed

text \<open>An alert closed as a false positive is put under investigation again.\<close>

theorem status_update_unvalidated_witness:
  "(ud_role jean = ''analyst'' \<or> ud_role jean = ''admin'')
   \<and> find (\<lambda>a. al_id a = 1) (db_alerts (alert_db (open_alert\<lparr>al_status := ''false_positive''\<rparr>)))
       = Some (open_alert\<lparr>al_status := ''false_positive''\<rparr>)
   \<and> au_status \<lparr>au_status = Some ''investigating'', au_assigned_to = None\<rparr>
       = Some ''investigating''
   \<and> ''investigating'' \<noteq> []
   \<and> (\<exists>alert' assigned db'.
        update_alert_status 1 \<lparr>au_status = Some ''investigating'', au_assigned_to = None\<rparr>
          (alert_db (open_alert\<lparr>al_status := ''false_positive''\<rparr>)) jean
          = Inr (alert', assigned, db')
        \<and> al_status alert' = ''investigating''
        \<and> find (\<lambda>a. al_id a = 1) (db_alerts db') = Some alert')"
  using status_update_unvalidated [of jean 1
      "alert_db (open_alert\<lparr>al_status := ''false_positive''\<rparr>)"
      "open_alert\<lparr>al_status := ''false_positive''\<rparr>"
      "\<lparr>au_status = Some ''investigating'', au_assigned_to = None\<rparr>" "''investigating''"]
  by (simp add: jean_def alert_db_def open_alert_def)

text \<open>
  The specification's statement fails here: the edge from resolved to open is not in
  the allowed set, and the call returns the reopened alert and stores it.
\<close>

theorem resolved_alert_is_reopened:
  "update_alert_status 1 \<lparr>au_status = Some ''open'', au_assigned_to = None\<rparr>
       (alert_db (open_alert\<lparr>al_status := ''resolved''\<rparr>)) jean
     = Inr (open_alert, None, alert_db open_alert)
   \<and> alert_db open_alert \<noteq> alert_db (open_alert\<lparr>al_status := ''resolved''\<rparr>)"
  by (simp add: update_alert_status_def get_analyst_or_admin_user_def Let_def jean_def alert_db_def
      open_alert_def)

section \<open>Two updates of one alert (C3)\<close>

text \<open>
  C3, as the code has it. The request body \<^verbatim>\<open>AlertUpdate\<close> carries a status and an
  assignee and no expected version, and \<^verbatim>\<open>update_alert_status\<close> compares no
  version: there is no \<open>Conflict\<close>. Of two calls on one stored alert by callers whose
  role is analyst or admin, each with a non-empty status, made one after the other, both
  succeed, and the status stored in the end is the later call's: the later write
  replaces the earlier one.
\<close>

theorem update_last_writer_wins:
  assumes "ud_role user1 = ''analyst'' \<or> ud_role user1 = ''admin''"
    and "ud_role user2 = ''analyst'' \<or> ud_role user2 = ''admin''"
    and "find (\<lambda>a. al_id a = alert_id) (db_alerts db) = Some alert"
    and "au_status update1 = Some s1" and "s1 \<noteq> []"
    and "au_status update2 = Some s2" and "s2 \<noteq> []"
  shows "\<exists>alert1 assigned1 db1 alert2 assigned2 db2.
       update_alert_status alert_id update1 db user1 = Inr (alert1, assigned1, db1)
     \<and> update_alert_status alert_id update2 db1 user2 = Inr (alert2, assigned2, db2)
     \<and> al_status alert1 = s1 \<and> al_status alert2 = s2
     \<and> find (\<lambda>a. al_id a = alert_id) (db_alerts db2) = Some alert2"
proof -
  let ?a1 = "updated alert update1"
  let ?db1 = "db\<lparr>db_alerts := commit_alert ?a1 (db_alerts db)\<rparr>"
  let ?a2 = "updated ?a1 update2"
  let ?db2 = "?db1\<lparr>db_alerts := commit_alert ?a2 (db_alerts ?db1)\<rparr>"
  have id1: "al_id ?a1 = alert_id"
    using find_SomeD [OF assms(3)] by simp
  have found1: "find (\<lambda>a. al_id a = alert_id) (db_alerts ?db1) = Some ?a1"
    using find_commit_alert [OF assms(3) id1] by simp
  have id2: "al_id ?a2 = alert_id"
    using id1 by simp
  have found2: "find (\<lambda>a. al_id a = alert_id) (db_alerts ?db2) = Some ?a2"
    using find_commit_alert [OF found1 id2] by simp
  have first: "update_alert_status alert_id update1 db user1
      = Inr (?a1, requested_assignee update1, ?db1)"
    using assms(1,3) by (rule update_alert_status_found)
  have second: "update_alert_status alert_id update2 ?db1 user2
      = Inr (?a2, requested_assignee update2, ?db2)"
    using assms(2) found1 by (rule update_alert_status_found)
  have "al_status ?a1 = s1" "al_status ?a2 = s2"
    using assms(4-7) by simp_all
  with first second found2 show ?thesis
    by blast
qed

text \<open>Jean marks the open alert a false positive, then Anne puts it under investigation.\<close>

theorem update_last_writer_wins_witness:
  "(ud_role jean = ''analyst'' \<or> ud_role jean = ''admin'')
   \<and> (ud_role anne = ''analyst'' \<or> ud_role anne = ''admin'')
   \<and> find (\<lambda>a. al_id a = 1) (db_alerts (alert_db open_alert)) = Some open_alert
   \<and> (\<exists>alert1 assigned1 db1 alert2 assigned2 db2.
        update_alert_status 1 \<lparr>au_status = Some ''false_positive'', au_assigned_to = None\<rparr>
          (alert_db open_alert) jean = Inr (alert1, assigned1, db1)
        \<and> update_alert_status 1 \<lparr>au_status = Some ''investigating'', au_assigned_to = None\<rparr>
          db1 anne = Inr (alert2, assigned2, db2)
        \<and> al_status alert1 = ''false_positive'' \<and> al_status alert2 = ''investigating''
        \<and> find (\<lambda>a. al_id a = 1) (db_alerts db2) = Some alert2)"
  using update_last_writer_wins [of jean anne 1 "alert_db open_alert" open_alert
      "\<lparr>au_status = Some ''false_positive'', au_assigned_to = None\<rparr>" "''false_positive''"
      "\<lparr>au_status = Some ''investigating'', au_assigned_to = None\<rparr>" "''investigating''"]
  by (simp add: jean_def anne_def alert_db_def open_alert_def)

text \<open>
  The specification's statement fails here: Jean and Anne both act on the open alert
  they were shown. Jean's call succeeds, and Anne's, which reaches the server after it, succeeds as well
  instead of failing with \<open>Conflict\<close>; Jean's status is overwritten.
\<close>

theorem stale_update_succeeds:
  "update_alert_status 1 \<lparr>au_status = Some ''investigating'', au_assigned_to = None\<rparr>
       (alert_db open_alert) jean
     = Inr (open_alert\<lparr>al_status := ''investigating''\<rparr>, None,
            alert_db (open_alert\<lparr>al_status := ''investigating''\<rparr>))
   \<and> update_alert_status 1 \<lparr>au_status = Some ''resolved'', au_assigned_to = None\<rparr>
       (alert_db (open_alert\<lparr>al_status := ''investigating''\<rparr>)) anne
     = Inr (open_alert\<lparr>al_status := ''resolved''\<rparr>, None,
            alert_db (open_alert\<lparr>al_status := ''resolved''\<rparr>))"
  by (simp add: update_alert_status_def get_analyst_or_admin_user_def Let_def jean_def anne_def
      alert_db_def open_alert_def)

section \<open>Ingesting a payload twice (C4)\<close>

text \<open>
  C4, as the code has it. \<^verbatim>\<open>add_transaction\<close> looks for no earlier transaction or
  alert: a payload carries no event id, and every call stores a new transaction under
  a fresh id and, when the score is above 0.8, a new alert that refers to that id. On a
  consistent database, submitting one payload twice stores two transactions with
  different ids and, when the score is above 0.8, two alerts; what stays true is that
  no two alerts refer to the same stored transaction.
\<close>

theorem ingestion_not_idempotent:
  assumes "db_consistent db"
    and "add_transaction predict_fraud message_of utcnow transaction db = (t1, db1)"
    and "add_transaction predict_fraud message_of utcnow' transaction db1 = (t2, db2)"
  shows "tr_id t2 = tr_id t1 + 1
     \<and> length (db_transactions db2) = length (db_transactions db) + 2
     \<and> length (db_alerts db2)
         = length (db_alerts db) + (if 0.8 < predict_fraud transaction then 2 else 0)
     \<and> distinct (map al_transaction_id (db_alerts db2))
     \<and> db_consistent db2"
proof -
  have c1: "db_consistent db1"
    using add_transaction_consistent [OF assms(1), of predict_fraud message_of utcnow transaction]
      assms(2) by simp
  have c2: "db_consistent db2"
    using add_transaction_consistent [OF c1, of predict_fraud message_of utcnow' transaction]
      assms(3) by simp
  have "tr_id t1 = db_transactions_id_seq db + 1"
    "db_transactions_id_seq db1 = db_transactions_id_seq db + 1"
    using add_transaction_id [of predict_fraud message_of utcnow transaction db] assms(2)
    by simp_all
  moreover have "tr_id t2 = db_transactions_id_seq db1 + 1"
    using add_transaction_id [of predict_fraud message_of utcnow' transaction db1] assms(3)
    by simp
  moreover have "length (db_alerts db1)
      = length (db_alerts db) + (if 0.8 < predict_fraud transaction then 1 else 0)"
    "length (db_transactions db1) = length (db_transactions db) + 1"
    using add_transaction_lengths [of predict_fraud message_of utcnow transaction db] assms(2)
    by simp_all
  moreover have "length (db_alerts db2)
      = length (db_alerts db1) + (if 0.8 < predict_fraud transaction then 1 else 0)"
    "length (db_transactions db2) = length (db_transactions db1) + 1"
    using add_transaction_lengths [of predict_fraud message_of utcnow' transaction db1] assms(3)
    by simp_all
  ultimately show ?thesis
    using c2 by (simp add: db_consistent_def)
qed

text \<open>The payload scored 0.9, submitted twice to the empty database.\<close>

theorem ingestion_not_idempotent_witness:
  "db_consistent empty_db
   \<and> snd (add_transaction (\<lambda>_. 0.9) (\<lambda>_. ''suspect'') 1704448800 payload empty_db)
       = alert_db open_alert
   \<and> length (db_transactions
        (snd (add_transaction (\<lambda>_. 0.9) (\<lambda>_. ''suspect'') 1704448800 payload
               (alert_db open_alert)))) = 2
   \<and> length (db_alerts
        (snd (add_transaction (\<lambda>_. 0.9) (\<lambda>_. ''suspect'') 1704448800 payload
               (alert_db open_alert)))) = 2
   \<and> db_consistent
        (snd (add_transaction (\<lambda>_. 0.9) (\<lambda>_. ''suspect'') 1704448800 payload
               (alert_db open_alert)))"
proof -
  have empty: "db_consistent empty_db"
    by (simp add: db_consistent_def empty_db_def)
  obtain t1 where first:
    "add_transaction (\<lambda>_. 0.9) (\<lambda>_. ''suspect'') 1704448800 payload empty_db
       = (t1, alert_db open_alert)"
    by (simp add: add_transaction_def add_commit_transaction_def add_commit_alert_def Let_def
        empty_db_def payload_def alert_db_def open_alert_def)
  obtain t2 db2 where second:
    "add_transaction (\<lambda>_. 0.9) (\<lambda>_. ''suspect'') 1704448800 payload (alert_db open_alert)
       = (t2, db2)"
    by (rule prod.exhaust)
  have lengths: "length (db_transactions empty_db) = 0" "length (db_alerts empty_db) = 0"
    by (simp_all add: empty_db_def)
  show ?thesis
    using ingestion_not_idempotent [OF empty first second] empty lengths
    unfolding first second by simp
qed

text \<open>
  The specification's statement fails here: the second submission of the payload changes the store,
  and the store then holds two alerts for the one event.
\<close>

theorem second_ingestion_adds_alert:
  "db_alerts (snd (add_transaction (\<lambda>_. 0.9) (\<lambda>_. ''suspect'') 1704448800 payload empty_db))
     = [open_alert]
   \<and> db_alerts (snd (add_transaction (\<lambda>_. 0.9) (\<lambda>_. ''suspect'') 1704448800 payload
        (snd (add_transaction (\<lambda>_. 0.9) (\<lambda>_. ''suspect'') 1704448800 payload empty_db))))
     = [open_alert, open_alert\<lparr>al_id := 2, al_transaction_id := 2\<rparr>]"
  by (simp add: add_transaction_def add_commit_transaction_def add_commit_alert_def Let_def
      empty_db_def payload_def open_alert_def)

section \<open>Thresholds (C5)\<close>

text \<open>
  C5, as the code has it. \<^verbatim>\<open>add_transaction\<close> creates an alert exactly when the
  score is strictly above 0.8 (a score of 0.8 creates none), and the alert it stores is
  open and carries no severity. \<^verbatim>\<open>generateMockAlerts\<close> builds an alert exactly
  for the transactions whose probability is strictly above 0.7, in their order, with
  severity critical above 0.9, high above 0.8 and medium otherwise: a probability equal
  to a bound falls in the band below it, and no alert has severity low.
\<close>

theorem alert_thresholds:
  "db_alerts (snd (add_transaction predict_fraud message_of utcnow transaction db))
     = (if 0.8 < predict_fraud transaction
        then db_alerts db @
               [\<lparr>al_id = db_alerts_id_seq db + 1,
                  al_transaction_id = db_transactions_id_seq db + 1,
                  al_banque_id = tc_banque_id transaction,
                  al_fraud_probability = predict_fraud transaction,
                  al_message = message_of (predict_fraud transaction),
                  al_status = ''open'', al_date = utcnow\<rparr>]
        else db_alerts db)
   \<and> map fa_fraudProbability (generateMockAlerts toFixed2 random transactions)
       = filter (\<lambda>p. 0.7 < p) (map tx_fraudProbability transactions)
   \<and> (\<forall>alert \<in> set (generateMockAlerts toFixed2 random transactions).
        0.7 < fa_fraudProbability alert
        \<and> fa_severity alert =
            (if 0.9 < fa_fraudProbability alert then Critical
             else if 0.8 < fa_fraudProbability alert then High else Medium)
        \<and> fa_severity alert \<noteq> Low)"
proof -
  have "db_alerts (snd (add_transaction predict_fraud message_of utcnow transaction db))
     = (if 0.8 < predict_fraud transaction
        then db_alerts db @
               [\<lparr>al_id = db_alerts_id_seq db + 1,
                  al_transaction_id = db_transactions_id_seq db + 1,
                  al_banque_id = tc_banque_id transaction,
                  al_fraud_probability = predict_fraud transaction,
                  al_message = message_of (predict_fraud transaction),
                  al_status = ''open'', al_date = utcnow\<rparr>]
        else db_alerts db)"
    by (cases "0.8 < predict_fraud transaction")
       (simp_all add: add_transaction_flagged add_transaction_unflagged Let_def)
  moreover have "\<forall>alert \<in> set (generateMockAlerts toFixed2 random transactions).
        0.7 < fa_fraudProbability alert
        \<and> fa_severity alert =
            (if 0.9 < fa_fraudProbability alert then Critical
             else if 0.8 < fa_fraudProbability alert then High else Medium)
        \<and> fa_severity alert \<noteq> Low"
    using generateMockAlerts_severity [of _ toFixed2 random transactions] by auto
  ultimately show ?thesis
    using generateMockAlerts_probabilities [of toFixed2 random transactions] by blast
qed

text \<open>The transfer scored 0.85 yields the one alert \<open>bnp_alert\<close>, of severity high.\<close>

theorem alert_thresholds_witness:
  "generateMockAlerts (\<lambda>_. ''950.00'') (\<lambda>_. 2 / 3) [bnp_transaction] = [bnp_alert]
   \<and> bnp_alert \<in> set (generateMockAlerts (\<lambda>_. ''950.00'') (\<lambda>_. 2 / 3) [bnp_transaction])
   \<and> 0.7 < fa_fraudProbability bnp_alert
   \<and> fa_severity bnp_alert = High"
proof -
  have built: "generateMockAlerts (\<lambda>_. ''950.00'') (\<lambda>_. 2 / 3) [bnp_transaction] = [bnp_alert]"
    by (simp add: generateMockAlerts_def bnp_transaction_def bnp_alert_def)
  show ?thesis
    using alert_thresholds [of "\<lambda>_. 0.9" "\<lambda>_. ''suspect''" 0 payload empty_db
        "\<lambda>_. ''950.00''" "\<lambda>_. 2 / 3" "[bnp_transaction]"]
    unfolding built by (simp add: bnp_alert_def)
qed

text \<open>
  The specification's statement fails here. A score of 0.6 lies in the band the
  specification names low, and \<^verbatim>\<open>add_transaction\<close> creates no alert for it,
  nor for a score of 0.8. A probability of 0.7 yields no mock alert, and one of 0.92,
  below the specification's bound for critical, yields a critical one.
\<close>

theorem low_score_creates_no_alert:
  "db_alerts (snd (add_transaction (\<lambda>_. 0.6) (\<lambda>_. ''suspect'') 1704448800 payload empty_db))
     = []
   \<and> db_alerts (snd (add_transaction (\<lambda>_. 0.8) (\<lambda>_. ''suspect'') 1704448800 payload empty_db))
     = []
   \<and> generateMockAlerts (\<lambda>_. ''950.00'') (\<lambda>_. 2 / 3)
       [bnp_transaction\<lparr>tx_fraudProbability := 0.7\<rparr>] = []
   \<and> map fa_severity (generateMockAlerts (\<lambda>_. ''950.00'') (\<lambda>_. 2 / 3)
       [bnp_transaction\<lparr>tx_fraudProbability := 0.92\<rparr>]) = [Critical]"
  by (simp add: add_transaction_def add_commit_transaction_def add_commit_alert_def Let_def
      empty_db_def payload_def generateMockAlerts_def bnp_transaction_def)

section \<open>Pushed alerts (C6)\<close>

text \<open>
  C6, as the code has it. The handler of a pushed \<^verbatim>\<open>fraudAlert\<close> compares no
  version (a \<^verbatim>\<open>FraudAlert\<close> has none): it puts every pushed alert in front of
  the list. After a run of pushes the list is the pushed alerts, latest first, followed
  by the previous list, so nothing is discarded, and an alert pushed twice is held
  twice.
\<close>

theorem pushed_alerts_all_kept:
  "pushAlerts prev alerts = rev alerts @ prev
   \<and> length (pushAlerts prev alerts) = length prev + length alerts
   \<and> handleFraudAlert alert (handleFraudAlert alert prev) = alert # alert # prev"
  by (simp add: pushAlerts_rev handleFraudAlert_def)

text \<open>
  The specification's statement fails here: handling the same pushed alert twice does not leave the
  list that handling it once leaves.
\<close>

theorem duplicate_push_is_kept:
  "handleFraudAlert bnp_alert (handleFraudAlert bnp_alert []) = [bnp_alert, bnp_alert]
   \<and> handleFraudAlert bnp_alert [] = [bnp_alert]
   \<and> handleFraudAlert bnp_alert (handleFraudAlert bnp_alert [])
        \<noteq> handleFraudAlert bnp_alert []"
  by (simp add: handleFraudAlert_def)

section \<open>What a status update writes (C7)\<close>




section \<open>A failed status update in the hook (C8)\<close>

text \<open>
  C8, as the code has it. When the API call of \<^verbatim>\<open>updateAlert\<close> is rejected, the
  hook reports nothing to its caller and applies the attempted edit to its own list:
  the list keeps its length, every alert with the given id gets the requested status
  and assignee, and every other alert is unchanged. When the call succeeds, every alert
  with the given id is replaced by the alert the server returned.
\<close>

theorem updateAlert_applies_locally:
  "length (updateAlert api alertId status assignedTo prev) = length prev
   \<and> (\<forall>i < length prev.
        updateAlert (Inl error) alertId status assignedTo prev ! i =
          (if fa_id (prev ! i) = alertId
           then (prev ! i)\<lparr>fa_status := status, fa_assignedTo := assignedTo\<rparr>
           else prev ! i)
        \<and> updateAlert (Inr updatedAlert) alertId status assignedTo prev ! i =
          (if fa_id (prev ! i) = alertId then updatedAlert else prev ! i))"
  by (cases api) (simp_all add: updateAlert_def)

text \<open>A rejected update of the only alert held, at index 0.\<close>

theorem updateAlert_applies_locally_witness:
  "(0::nat) < length [bnp_alert]
   \<and> updateAlert (Inl (ApiError (Some 500))) ''alert_1'' ''investigating''
        (Some ''Jean Dupont'') [bnp_alert] ! 0
      = bnp_alert\<lparr>fa_status := ''investigating'', fa_assignedTo := Some ''Jean Dupont''\<rparr>"
  using updateAlert_applies_locally [of "Inl (ApiError (Some 500))" "''alert_1''"
      "''investigating''" "Some ''Jean Dupont''" "[bnp_alert]" "ApiError (Some 500)"]
  by (simp add: bnp_alert_def)

text \<open>
  The specification's statement fails here: the server rejects the update with 409 (the alert it
  holds is under investigation, say), and the viewer's list shows the alert as resolved
  all the same.
\<close>

theorem failed_update_is_shown_as_applied:
  "updateAlert (Inl (ApiError (Some 409))) ''alert_1'' ''resolved'' None
       [bnp_alert\<lparr>fa_status := ''investigating''\<rparr>]
     = [bnp_alert\<lparr>fa_status := ''resolved''\<rparr>]
   \<and> bnp_alert\<lparr>fa_status := ''resolved''\<rparr> \<noteq> bnp_alert\<lparr>fa_status := ''investigating''\<rparr>"
  by (simp add: updateAlert_def bnp_alert_def)

section \<open>The login fallback (C9)\<close>

text \<open>
  C9. Whenever one of the two backend calls of \<^verbatim>\<open>login\<close> fails, the login is
  fulfilled exactly when the email is that of a built-in mock user and the password is
  \<^verbatim>\<open>demo123\<close>. Then that mock user is the authenticated user, the token
  \<^verbatim>\<open>mock_token_\<close> followed by the user's id is stored, and so is the email. In
  every other case the login throws \<^verbatim>\<open>Invalid credentials\<close> and the user of the
  state is the one it was.
\<close>

theorem login_fallback:
  assumes "isl login_response \<or> isl me_response"
  shows "(case login login_response me_response email password st of (r, st') \<Rightarrow>
     if (\<exists>u \<in> set mockUsers. u_email u = email) \<and> password = ''demo123''
     then r = Inr () \<and> ls_mock_user_email st' = Some email
          \<and> (\<exists>u \<in> set mockUsers. u_email u = email \<and> as_user st' = Some u
                \<and> ls_auth_token st' = Some (''mock_token_'' @ u_id u))
     else r = Inl InvalidCredentials \<and> as_user st' = as_user st)"
proof -
  obtain st0
    where run: "login login_response me_response email password st
                  = mock_login email password st0"
      and user0: "as_user st0 = as_user st"
    using assms
    by (cases login_response; cases me_response)
       (auto simp add: login_def as_user_response_interceptor)
  show ?thesis
    using mock_login_result [of email password st0] user0
    unfolding run by (auto split: prod.splits if_splits)
qed

text \<open>
  The backend is unreachable: the analyst logs in with the demo password, and is
  refused with another one.
\<close>

theorem login_fallback_witness:
  "isl (Inl (ApiError None) :: api_error + string)
   \<and> login (Inl (ApiError None)) (Inl (ApiError None)) ''analyst@bnp.fr'' ''demo123''
       logged_out
     = (Inr (), \<lparr>as_user = Some bnp_analyst, ls_auth_token = Some ''mock_token_2'',
                ls_mock_user_email = Some ''analyst@bnp.fr''\<rparr>)
   \<and> login (Inl (ApiError None)) (Inl (ApiError None)) ''analyst@bnp.fr'' ''demo''
       logged_out
     = (Inl InvalidCredentials, logged_out)"
  using login_fallback [of "Inl (ApiError None)" "Inl (ApiError None)" "''analyst@bnp.fr''"
      "''demo123''" logged_out]
  by (simp add: login_def mock_login_def mockUsers_def logged_out_def bnp_analyst_def)

section \<open>Pushed transactions (C10)\<close>

text \<open>
  C10. Every pushed \<^verbatim>\<open>newTransaction\<close> event puts the new transaction in front
  of the first 99 entries of the previous list. So after any run of pushes ending with
  the transaction \<open>t\<close>, whatever the list held before (also more than 100 entries), the
  list has at most 100 entries and its head is \<open>t\<close>, the most recently received one.
\<close>

theorem pushed_transactions_bounded:
  "pushTransactions prev (ts @ [t]) = t # take 99 (pushTransactions prev ts)
   \<and> length (pushTransactions prev (ts @ [t])) \<le> 100
   \<and> hd (pushTransactions prev (ts @ [t])) = t"
  by (simp add: pushTransactions_snoc)

end
